theory Spec2Isabelle
  imports Main "HOL-Library.Log_Nat" "HOL-Library.AList"
begin

section \<open>Python values used by sistema_facturacion.py\<close>

text \<open>
  The exceptions the module can raise. Every \<^verbatim>\<open>raise\<close>, and every failing library
  call, is a value \<open>Inl e\<close> of a result type \<open>error + 'a\<close>.
\<close>

datatype error =
  ValueError | ZeroDivisionError | NotImplementedError | StopIteration
  | FileNotFoundError | CsvError

text \<open>
  Python numbers: an \<^verbatim>\<open>int\<close> is unbounded, a \<^verbatim>\<open>float\<close> is a binary64 value. A float
  is represented by the rational number it denotes, and every float operation rounds
  its exact result to 53 significant bits, ties to even. The exponent range is not
  bounded in this model: it agrees with Python as long as no intermediate result
  leaves the normal range of binary64 (no overflow to \<^verbatim>\<open>inf\<close>, no subnormal result);
  \<^verbatim>\<open>inf\<close>, \<^verbatim>\<open>nan\<close> and the sign of zero are not represented.
\<close>

datatype pynum = PInt int | PFloat rat

definition round_half_even :: "rat \<Rightarrow> int" where
  "round_half_even x =
     (let n = \<lfloor>x\<rfloor>; r = x - of_int n
      in if r < 1 / 2 then n else if 1 / 2 < r then n + 1 else if even n then n else n + 1)"

definition pow2 :: "int \<Rightarrow> rat" where
  "pow2 e = (if 0 \<le> e then 2 ^ nat e else 1 / 2 ^ nat (- e))"

definition binade :: "rat \<Rightarrow> int" where
  \<comment> \<open>the exponent \<open>e\<close> with \<open>2 ^ e \<le> |x| < 2 ^ (e + 1)\<close>, for \<open>x \<noteq> 0\<close>\<close>
  "binade x =
     (let a = \<bar>x\<bar>; k = bitlen (fst (quotient_of a)) - bitlen (snd (quotient_of a))
      in if pow2 k \<le> a then k else k - 1)"

definition fl :: "rat \<Rightarrow> rat" where
  \<comment> \<open>round to the nearest number with a 53-bit significand, ties to even\<close>
  "fl x =
     (if x = 0 then 0
      else let e = binade x - 52 in of_int (round_half_even (x / pow2 e)) * pow2 e)"

fun to_float :: "pynum \<Rightarrow> rat" where
  \<comment> \<open>the implicit conversion of an operand to float\<close>
  "to_float (PInt i) = fl (of_int i)"
| "to_float (PFloat r) = r"

fun num_val :: "pynum \<Rightarrow> rat" where
  \<comment> \<open>the exact value; Python compares an int with a float exactly\<close>
  "num_val (PInt i) = of_int i"
| "num_val (PFloat r) = r"

definition py_le :: "pynum \<Rightarrow> pynum \<Rightarrow> bool" where
  "py_le a b = (num_val a \<le> num_val b)"

fun py_mul :: "pynum \<Rightarrow> pynum \<Rightarrow> pynum" where
  "py_mul (PInt i) (PInt j) = PInt (i * j)"
| "py_mul a b = PFloat (fl (to_float a * to_float b))"

fun py_add :: "pynum \<Rightarrow> pynum \<Rightarrow> pynum" where
  "py_add (PInt i) (PInt j) = PInt (i + j)"
| "py_add a b = PFloat (fl (to_float a + to_float b))"

fun py_quotient :: "pynum \<Rightarrow> pynum \<Rightarrow> pynum" where
  \<comment> \<open>the value of \<^verbatim>\<open>a / b\<close> for a divisor that is not zero: always a float;
      int / int is the correctly rounded exact quotient\<close>
  "py_quotient (PInt i) (PInt j) = PFloat (fl (of_int i / of_int j))"
| "py_quotient a b = PFloat (fl (to_float a / to_float b))"

definition py_truediv :: "pynum \<Rightarrow> pynum \<Rightarrow> error + pynum" where
  "py_truediv a b = (if num_val b = 0 then Inl ZeroDivisionError else Inr (py_quotient a b))"

text \<open>
  Strings are \<^typ>\<open>string\<close>; \<^verbatim>\<open>len\<close> is \<^const>\<open>length\<close>. A \<^typ>\<open>char\<close> is a byte,
  so the model is about ASCII text, where \<^verbatim>\<open>str.isdigit\<close> holds for a non-empty
  string of the characters 0 to 9.
\<close>

definition digit_char :: "char \<Rightarrow> bool" where
  "digit_char c = (c \<in> set ''0123456789'')"

definition isdigit :: "string \<Rightarrow> bool" where
  "isdigit s = (s \<noteq> [] \<and> list_all digit_char s)"

section \<open>class Producto\<close>

record Producto =
  codigo :: string
  nombre :: string
  precio :: pynum
  tipo :: string
  cantidad :: int

text \<open>The conditions of the five property setters.\<close>

definition codigo_ok :: "string \<Rightarrow> bool" where
  "codigo_ok v = (length v = 4 \<and> isdigit v)"

definition nombre_ok :: "string \<Rightarrow> bool" where
  "nombre_ok v = (1 \<le> length v \<and> length v \<le> 100)"

definition precio_ok :: "pynum \<Rightarrow> bool" where
  "precio_ok v = (py_le (PInt 10) v \<and> py_le v (PInt 10000))"

definition tipo_ok :: "string \<Rightarrow> bool" where
  "tipo_ok v = (0 \<le> length v \<and> length v \<le> 20)"

definition cantidad_ok :: "int \<Rightarrow> bool" where
  "cantidad_ok v = (0 \<le> v \<and> v \<le> 1000)"

text \<open>
  A setter either stores the value or raises before storing anything. Its model returns
  the exception raised, if any, together with the object as it is afterwards.
\<close>

definition Producto_set_codigo :: "Producto \<Rightarrow> string \<Rightarrow> error option \<times> Producto" where
  "Producto_set_codigo self v =
     (if codigo_ok v then (None, self\<lparr>codigo := v\<rparr>) else (Some ValueError, self))"

definition Producto_set_nombre :: "Producto \<Rightarrow> string \<Rightarrow> error option \<times> Producto" where
  "Producto_set_nombre self v =
     (if nombre_ok v then (None, self\<lparr>nombre := v\<rparr>) else (Some ValueError, self))"

definition Producto_set_precio :: "Producto \<Rightarrow> pynum \<Rightarrow> error option \<times> Producto" where
  "Producto_set_precio self v =
     (if precio_ok v then (None, self\<lparr>precio := v\<rparr>) else (Some ValueError, self))"

definition Producto_set_tipo :: "Producto \<Rightarrow> string \<Rightarrow> error option \<times> Producto" where
  "Producto_set_tipo self v =
     (if tipo_ok v then (None, self\<lparr>tipo := v\<rparr>) else (Some ValueError, self))"

definition Producto_set_cantidad :: "Producto \<Rightarrow> int \<Rightarrow> error option \<times> Producto" where
  "Producto_set_cantidad self v =
     (if cantidad_ok v then (None, self\<lparr>cantidad := v\<rparr>) else (Some ValueError, self))"

definition Producto_init ::
  "string \<Rightarrow> string \<Rightarrow> pynum \<Rightarrow> string \<Rightarrow> int \<Rightarrow> error + Producto" where
  \<comment> \<open>the five assignments of \<^verbatim>\<open>__init__\<close>, in order; the first failing one raises\<close>
  "Producto_init c n pr t q =
     (if \<not> codigo_ok c then Inl ValueError
      else if \<not> nombre_ok n then Inl ValueError
      else if \<not> precio_ok pr then Inl ValueError
      else if \<not> tipo_ok t then Inl ValueError
      else if \<not> cantidad_ok q then Inl ValueError
      else Inr \<lparr>codigo = c, nombre = n, precio = pr, tipo = t, cantidad = q\<rparr>)"

definition Producto_valorTotal :: "Producto \<Rightarrow> pynum" where
  "Producto_valorTotal self = py_mul (precio self) (PInt (cantidad self))"

section \<open>class Oferta and its subclasses\<close>

text \<open>
  The attributes \<^verbatim>\<open>codigos\<close> and \<^verbatim>\<open>tipos\<close> hold references to list objects, and
  \<^verbatim>\<open>__init__\<close> stores the reference it is given. The list objects live in a store.
  The two default values \<^verbatim>\<open>[]\<close> of \<^verbatim>\<open>__init__\<close> are evaluated once, when the
  \<^verbatim>\<open>def\<close> statement runs: they are two list objects at fixed references, and an
  omitted argument (\<open>None\<close> below) stands for that reference.
\<close>

type_synonym ref = nat
type_synonym store = "ref \<Rightarrow> string list"

definition default_codigos :: ref where
  "default_codigos = 0"

definition default_tipos :: ref where
  "default_tipos = 1"

definition list_append :: "store \<Rightarrow> ref \<Rightarrow> string \<Rightarrow> store" where
  \<comment> \<open>\<^verbatim>\<open>r.append(x)\<close> on the list object at reference \<open>r\<close>\<close>
  "list_append h r x = h(r := h r @ [x])"

datatype clase = ClaseOferta | ClaseOfertaDescuento pynum | ClaseOferta2x1

record Oferta =
  descripcion :: string
  codigos :: ref
  tipos :: ref
  clase :: clase

definition Oferta_init :: "string \<Rightarrow> ref option \<Rightarrow> ref option \<Rightarrow> Oferta" where
  "Oferta_init d c t =
     \<lparr>descripcion = d,
      codigos = (case c of None \<Rightarrow> default_codigos | Some r \<Rightarrow> r),
      tipos = (case t of None \<Rightarrow> default_tipos | Some r \<Rightarrow> r),
      clase = ClaseOferta\<rparr>"

definition OfertaDescuento_init :: "pynum \<Rightarrow> string \<Rightarrow> ref option \<Rightarrow> ref option \<Rightarrow> Oferta" where
  "OfertaDescuento_init descuento d c t = (Oferta_init d c t)\<lparr>clase := ClaseOfertaDescuento descuento\<rparr>"

definition Oferta2x1_init :: "string \<Rightarrow> ref option \<Rightarrow> ref option \<Rightarrow> Oferta" where
  "Oferta2x1_init d c t = (Oferta_init d c t)\<lparr>clase := ClaseOferta2x1\<rparr>"

definition esAplicable :: "store \<Rightarrow> Oferta \<Rightarrow> Producto \<Rightarrow> int \<Rightarrow> bool" where
  "esAplicable h self producto n =
     (codigo producto \<in> set (h (codigos self)) \<or> tipo producto \<in> set (h (tipos self)))"

definition aplicar :: "store \<Rightarrow> Oferta \<Rightarrow> Producto \<Rightarrow> int \<Rightarrow> error + pynum" where
  "aplicar h self producto n =
     (case clase self of
        ClaseOferta \<Rightarrow> Inl NotImplementedError
      | ClaseOfertaDescuento descuento \<Rightarrow>
          if esAplicable h self producto n
          then (case py_truediv descuento (PInt 100) of
                  Inl e \<Rightarrow> Inl e
                | Inr f \<Rightarrow> Inr (py_mul (py_mul (precio producto) (PInt n)) f))
          else Inr (PInt 0)
      | ClaseOferta2x1 \<Rightarrow>
          if esAplicable h self producto n
          then Inr (py_mul (precio producto) (PInt (n div 2)))
          else Inr (PInt 0))"

section \<open>class Catalogo\<close>

record Catalogo =
  productos :: "Producto list"
  ofertas :: "Oferta list"

definition Catalogo_init :: Catalogo where
  "Catalogo_init = \<lparr>productos = [], ofertas = []\<rparr>"

definition Catalogo_agregar :: "Catalogo \<Rightarrow> Producto \<Rightarrow> Catalogo" where
  "Catalogo_agregar self producto = self\<lparr>productos := productos self @ [producto]\<rparr>"

fun buscar_loop :: "Producto list \<Rightarrow> string \<Rightarrow> Producto option" where
  "buscar_loop [] c = None"
| "buscar_loop (p # ps) c = (if codigo p = c then Some p else buscar_loop ps c)"

definition buscar :: "Catalogo \<Rightarrow> string \<Rightarrow> Producto option" where
  "buscar self c = buscar_loop (productos self) c"

definition registrarOferta :: "Catalogo \<Rightarrow> Oferta \<Rightarrow> Catalogo" where
  "registrarOferta self oferta = self\<lparr>ofertas := ofertas self @ [oferta]\<rparr>"

fun buscarOferta_loop :: "store \<Rightarrow> Oferta list \<Rightarrow> Producto \<Rightarrow> int \<Rightarrow> Oferta option" where
  "buscarOferta_loop h [] producto n = None"
| "buscarOferta_loop h (oferta # rest) producto n =
     (if esAplicable h oferta producto n then Some oferta
      else buscarOferta_loop h rest producto n)"

definition buscarOferta :: "store \<Rightarrow> Catalogo \<Rightarrow> Producto \<Rightarrow> int \<Rightarrow> Oferta option" where
  "buscarOferta h self producto n = buscarOferta_loop h (ofertas self) producto n"

definition calcularDescuento :: "store \<Rightarrow> Catalogo \<Rightarrow> Producto \<Rightarrow> int \<Rightarrow> error + pynum" where
  \<comment> \<open>an instance of Oferta or of a subclass is always true in \<^verbatim>\<open>if oferta:\<close>\<close>
  "calcularDescuento h self producto n =
     (case buscarOferta h self producto n of
        Some oferta \<Rightarrow> aplicar h oferta producto n
      | None \<Rightarrow> Inr (PInt 0))"

definition Catalogo_cantidadProductos :: "Catalogo \<Rightarrow> nat" where
  "Catalogo_cantidadProductos self = length (productos self)"

definition Catalogo_cantidadUnidades :: "Catalogo \<Rightarrow> int" where
  "Catalogo_cantidadUnidades self = foldl (+) 0 (map cantidad (productos self))"

definition Catalogo_valorTotal :: "Catalogo \<Rightarrow> pynum" where
  \<comment> \<open>\<^verbatim>\<open>sum\<close> starts from the int 0 and adds from left to right\<close>
  "Catalogo_valorTotal self = foldl py_add (PInt 0) (map Producto_valorTotal (productos self))"


text \<open>
  \<^verbatim>\<open>informe\<close> groups the products in a dict, which keeps its keys in insertion order:
  an association list, read with \<^const>\<open>map_of\<close> and written with \<^const>\<open>AList.update\<close>
  (in place for a key that is present, at the end for a new one). An entry holds
  \<^verbatim>\<open>unidades\<close> and \<^verbatim>\<open>valor\<close>. The report is built from the values below; the text
  it is rendered to (f-strings over numbers and strings, which do not fail) is not
  modelled.
\<close>

type_synonym tipos_dict = "(string \<times> int \<times> pynum) list"

definition informe_paso :: "tipos_dict \<Rightarrow> Producto \<Rightarrow> tipos_dict" where
  \<comment> \<open>the body of the first loop, for one product; \<open>d\<close> is the dict \<^verbatim>\<open>tipos\<close>\<close>
  "informe_paso d p =
     (let d1 = (if map_of d (tipo p) = None then AList.update (tipo p) (0, PInt 0) d else d)
      in case map_of d1 (tipo p) of
           None \<Rightarrow> d1
         | Some (unidades, valor) \<Rightarrow>
             AList.update (tipo p) (unidades + cantidad p, py_add valor (Producto_valorTotal p)) d1)"

definition informe_tipos :: "Producto list \<Rightarrow> tipos_dict" where
  "informe_tipos ps = foldl informe_paso [] ps"

fun informe_lineas :: "tipos_dict \<Rightarrow> error + (string \<times> int \<times> pynum) list" where
  \<comment> \<open>the second loop: category, units and average price of each line\<close>
  "informe_lineas [] = Inr []"
| "informe_lineas ((t, unidades, valor) # rest) =
     (case py_truediv valor (PInt unidades) of
        Inl e \<Rightarrow> Inl e
      | Inr precio_promedio \<Rightarrow>
          (case informe_lineas rest of
             Inl e \<Rightarrow> Inl e
           | Inr ls \<Rightarrow> Inr ((t, unidades, precio_promedio) # ls)))"

record Informe =
  inf_cantidadProductos :: nat
  inf_cantidadUnidades :: int
  inf_precioPromedio :: pynum
  inf_valorTotal :: pynum
  inf_tipos :: "(string \<times> int \<times> pynum) list"
  inf_ofertas :: "string list"

definition informe :: "Catalogo \<Rightarrow> error + Informe" where
  "informe self =
     (let d = informe_tipos (productos self)
      in case py_truediv (Catalogo_valorTotal self) (PInt (Catalogo_cantidadUnidades self)) of
           Inl e \<Rightarrow> Inl e
         | Inr promedio \<Rightarrow>
             (case informe_lineas d of
                Inl e \<Rightarrow> Inl e
              | Inr ls \<Rightarrow>
                  Inr \<lparr>inf_cantidadProductos = Catalogo_cantidadProductos self,
                       inf_cantidadUnidades = Catalogo_cantidadUnidades self,
                       inf_precioPromedio = promedio,
                       inf_valorTotal = Catalogo_valorTotal self,
                       inf_tipos = ls,
                       inf_ofertas = map descripcion (ofertas self)\<rparr>))"

text \<open>
  The figures of the specification for one category: the units are the sum of the
  quantities of its products, the value is the sum of their total values, added in the
  order of the catalog from the integer 0.
\<close>

definition unidades_de_tipo :: "Producto list \<Rightarrow> string \<Rightarrow> int" where
  "unidades_de_tipo ps t = sum_list (map cantidad (filter (\<lambda>p. tipo p = t) ps))"

definition valor_de_tipo :: "Producto list \<Rightarrow> string \<Rightarrow> pynum" where
  "valor_de_tipo ps t = foldl py_add (PInt 0) (map Producto_valorTotal (filter (\<lambda>p. tipo p = t) ps))"

section \<open>Catalogo.guardar and Catalogo.leer\<close>

text \<open>
  The two methods go through Python's library: text files, the \<^verbatim>\<open>csv\<close> module with
  its default dialect (delimiter \<^verbatim>\<open>,\<close>, quote character \<^verbatim>\<open>"\<close> doubled inside a quoted
  field, minimal quoting, line terminator CR LF, no escape character, not strict),
  \<^verbatim>\<open>str\<close>, \<^verbatim>\<open>int\<close> and \<^verbatim>\<open>float\<close>. The part of the library they use is modelled
  here after its documentation and the CPython implementation. A file system is a map
  from paths to the characters stored in the file.
\<close>

abbreviation LF :: char where "LF \<equiv> CHR 0x0A"
abbreviation CR :: char where "CR \<equiv> CHR 0x0D"
abbreviation DQUOTE :: char where "DQUOTE \<equiv> CHR 0x22"
abbreviation COMMA :: char where "COMMA \<equiv> CHR '',''"

type_synonym filesystem = "string \<rightharpoonup> string"

subsection \<open>str, int and float\<close>

fun digits_of :: "nat \<Rightarrow> string" where
  "digits_of n =
     (if n < 10 then [char_of (48 + n)] else digits_of (n div 10) @ [char_of (48 + n mod 10)])"

declare digits_of.simps [simp del]

definition str_int :: "int \<Rightarrow> string" where
  "str_int i = (if i < 0 then CHR ''-'' # digits_of (nat (- i)) else digits_of (nat i))"

definition str_num :: "(rat \<Rightarrow> string) \<Rightarrow> pynum \<Rightarrow> string" where
  \<comment> \<open>\<^verbatim>\<open>str\<close> of a number; \<open>float_repr\<close> stands for \<^verbatim>\<open>float.__repr__\<close>, the shortest
      decimal text that reads back as the same float, which is not modelled\<close>
  "str_num float_repr v = (case v of PInt i \<Rightarrow> str_int i | PFloat r \<Rightarrow> float_repr r)"

definition space_char :: "char \<Rightarrow> bool" where
  \<comment> \<open>the ASCII characters that \<^verbatim>\<open>int\<close> and \<^verbatim>\<open>float\<close> strip from both ends\<close>
  "space_char c =
     (c \<in> {CHR 0x09, CHR 0x0A, CHR 0x0B, CHR 0x0C, CHR 0x0D,
            CHR 0x1C, CHR 0x1D, CHR 0x1E, CHR 0x1F, CHR 0x20})"

definition strip :: "string \<Rightarrow> string" where
  "strip s = rev (dropWhile space_char (rev (dropWhile space_char s)))"

fun digitrest :: "string \<Rightarrow> string \<Rightarrow> string option" where
  "digitrest acc [] = Some acc"
| "digitrest acc [c] = (if digit_char c then Some (acc @ [c]) else None)"
| "digitrest acc (c # d # ds) =
     (if digit_char c then digitrest (acc @ [c]) (d # ds)
      else if c = CHR ''_'' \<and> digit_char d then digitrest (acc @ [d]) ds
      else None)"

definition digitpart :: "string \<Rightarrow> string option" where
  \<comment> \<open>digits, with single underscores allowed between two digits; the digits\<close>
  "digitpart s =
     (case s of [] \<Rightarrow> None | c # cs \<Rightarrow> if digit_char c then digitrest [c] cs else None)"

definition digits_val :: "string \<Rightarrow> nat" where
  "digits_val ds = foldl (\<lambda>a c. 10 * a + (of_char c - 48)) 0 ds"

definition split_sign :: "string \<Rightarrow> bool \<times> string" where
  \<comment> \<open>an optional sign: whether it is a minus, and the rest\<close>
  "split_sign s =
     (case s of
        [] \<Rightarrow> (False, [])
      | c # cs \<Rightarrow> if c = CHR ''-'' then (True, cs) else if c = CHR ''+'' then (False, cs)
                  else (False, s))"

definition py_int :: "string \<Rightarrow> error + int" where
  \<comment> \<open>\<^verbatim>\<open>int(s)\<close> for a string, base 10\<close>
  "py_int s =
     (let (neg, body) = split_sign (strip s)
      in case digitpart body of
           None \<Rightarrow> Inl ValueError
         | Some ds \<Rightarrow> Inr (if neg then - int (digits_val ds) else int (digits_val ds)))"

definition pow10 :: "int \<Rightarrow> rat" where
  "pow10 e = (if 0 \<le> e then 10 ^ nat e else 1 / 10 ^ nat (- e))"

definition exponent_char :: "char \<Rightarrow> bool" where
  "exponent_char c = (c = CHR ''e'' \<or> c = CHR ''E'')"

definition parse_exponent :: "string \<Rightarrow> int option" where
  \<comment> \<open>the text from the exponent letter on; empty when there is no exponent\<close>
  "parse_exponent s =
     (case s of
        [] \<Rightarrow> Some 0
      | c # cs \<Rightarrow>
          (let (neg, body) = split_sign cs
           in case digitpart body of
                None \<Rightarrow> None
              | Some ds \<Rightarrow> Some (if neg then - int (digits_val ds) else int (digits_val ds))))"

definition parse_mantissa :: "string \<Rightarrow> rat option" where
  \<comment> \<open>digits, a point and digits; one of the two groups of digits may be missing\<close>
  "parse_mantissa s =
     (let ip = takeWhile (\<lambda>c. c \<noteq> CHR ''.'') s; rest = dropWhile (\<lambda>c. c \<noteq> CHR ''.'') s
      in case rest of
           [] \<Rightarrow> map_option (\<lambda>ds. of_nat (digits_val ds)) (digitpart ip)
         | dot # fp \<Rightarrow>
             (if ip = [] \<and> fp = [] then None
              else case (if ip = [] then Some [] else digitpart ip,
                         if fp = [] then Some [] else digitpart fp) of
                     (Some ids, Some fds) \<Rightarrow>
                       Some (of_nat (digits_val ids)
                             + of_nat (digits_val fds) / 10 ^ length fds)
                   | _ \<Rightarrow> None))"

definition py_float :: "string \<Rightarrow> error + pynum" where
  \<comment> \<open>\<^verbatim>\<open>float(s)\<close> for a string: the decimal numeral, correctly rounded. The spellings
      of infinity and nan are answered with ValueError here; \<^verbatim>\<open>float\<close> accepts them,
      and in \<^verbatim>\<open>leer\<close> the same ValueError then comes from the conversion of the
      quantity or from the price setter, which rejects both values.\<close>
  "py_float s =
     (let (neg, body) = split_sign (strip s);
          m = takeWhile (\<lambda>c. \<not> exponent_char c) body;
          e = dropWhile (\<lambda>c. \<not> exponent_char c) body
      in case (parse_mantissa m, parse_exponent e) of
           (Some mv, Some ev) \<Rightarrow> Inr (PFloat (fl ((if neg then - mv else mv) * pow10 ev)))
         | _ \<Rightarrow> Inl ValueError)"

subsection \<open>csv.writer\<close>

definition csv_special :: "char \<Rightarrow> bool" where
  \<comment> \<open>the delimiter, the quote character and the characters of the line terminator\<close>
  "csv_special c = (c = COMMA \<or> c = DQUOTE \<or> c = CR \<or> c = LF)"

definition csv_field :: "string \<Rightarrow> string" where
  "csv_field s =
     (if list_ex csv_special s
      then [DQUOTE] @ concat (map (\<lambda>c. if c = DQUOTE then [DQUOTE, DQUOTE] else [c]) s) @ [DQUOTE]
      else s)"

fun join_fields :: "string list \<Rightarrow> string" where
  "join_fields [] = []"
| "join_fields [f] = f"
| "join_fields (f # g # fs) = f @ [COMMA] @ join_fields (g # fs)"

definition writerow :: "string list \<Rightarrow> string" where
  \<comment> \<open>a row whose only field is empty is written as a pair of quotes\<close>
  "writerow row =
     (if row = [[]] then [DQUOTE, DQUOTE] else join_fields (map csv_field row)) @ [CR, LF]"

subsection \<open>Reading a text file, csv.reader\<close>

fun universal_newlines :: "string \<Rightarrow> string" where
  \<comment> \<open>\<^verbatim>\<open>open(archivo, 'r')\<close> leaves \<^verbatim>\<open>newline\<close> at None: CR LF and CR are read as LF\<close>
  "universal_newlines [] = []"
| "universal_newlines [c] = (if c = CR then [LF] else [c])"
| "universal_newlines (c # d # cs) =
     (if c = CR then (if d = LF then LF # universal_newlines cs else LF # universal_newlines (d # cs))
      else c # universal_newlines (d # cs))"

fun file_lines :: "string \<Rightarrow> string \<Rightarrow> string list" where
  \<comment> \<open>iterating over the file: the lines, each with its LF; \<open>cur\<close> is the line so far\<close>
  "file_lines cur [] = (if cur = [] then [] else [cur])"
| "file_lines cur (c # cs) =
     (if c = LF then (cur @ [c]) # file_lines [] cs else file_lines (cur @ [c]) cs)"

datatype csv_state =
  START_RECORD | START_FIELD | IN_FIELD | IN_QUOTED_FIELD | QUOTE_IN_QUOTED_FIELD | EAT_CRNL

record reader =
  rd_state :: csv_state
  rd_fields :: "string list"
  rd_field :: string

definition parse_reset :: reader where
  "parse_reset = \<lparr>rd_state = START_RECORD, rd_fields = [], rd_field = []\<rparr>"

definition parse_add_char :: "reader \<Rightarrow> char \<Rightarrow> error + reader" where
  \<comment> \<open>the field size limit of the module is 131072\<close>
  "parse_add_char r c =
     (if 131072 \<le> length (rd_field r) then Inl CsvError
      else Inr (r\<lparr>rd_field := rd_field r @ [c]\<rparr>))"

definition parse_save_field :: "reader \<Rightarrow> reader" where
  "parse_save_field r = r\<lparr>rd_fields := rd_fields r @ [rd_field r], rd_field := []\<rparr>"

definition end_of_line :: "char option \<Rightarrow> bool" where
  \<comment> \<open>\<open>None\<close> is the end-of-line signal the reader gets after the characters of a line\<close>
  "end_of_line c = (c = None \<or> c = Some LF \<or> c = Some CR)"

definition process_start_field :: "reader \<Rightarrow> char option \<Rightarrow> error + reader" where
  "process_start_field r c =
     (if end_of_line c
      then Inr ((parse_save_field r)\<lparr>rd_state := (if c = None then START_RECORD else EAT_CRNL)\<rparr>)
      else if c = Some DQUOTE then Inr (r\<lparr>rd_state := IN_QUOTED_FIELD\<rparr>)
      else if c = Some COMMA then Inr (parse_save_field r)
      else case c of
             None \<Rightarrow> Inr r
           | Some ch \<Rightarrow> map_sum id (\<lambda>r'. r'\<lparr>rd_state := IN_FIELD\<rparr>) (parse_add_char r ch))"

definition parse_process_char :: "reader \<Rightarrow> char option \<Rightarrow> error + reader" where
  "parse_process_char r c =
     (case rd_state r of
        START_RECORD \<Rightarrow>
          if c = None then Inr r
          else if c = Some LF \<or> c = Some CR then Inr (r\<lparr>rd_state := EAT_CRNL\<rparr>)
          else process_start_field (r\<lparr>rd_state := START_FIELD\<rparr>) c
      | START_FIELD \<Rightarrow> process_start_field r c
      | IN_FIELD \<Rightarrow>
          if end_of_line c
          then Inr ((parse_save_field r)\<lparr>rd_state := (if c = None then START_RECORD else EAT_CRNL)\<rparr>)
          else if c = Some COMMA then Inr ((parse_save_field r)\<lparr>rd_state := START_FIELD\<rparr>)
          else (case c of None \<Rightarrow> Inr r | Some ch \<Rightarrow> parse_add_char r ch)
      | IN_QUOTED_FIELD \<Rightarrow>
          (case c of
             None \<Rightarrow> Inr r
           | Some ch \<Rightarrow>
               if ch = DQUOTE then Inr (r\<lparr>rd_state := QUOTE_IN_QUOTED_FIELD\<rparr>)
               else parse_add_char r ch)
      | QUOTE_IN_QUOTED_FIELD \<Rightarrow>
          if c = Some DQUOTE
          then map_sum id (\<lambda>r'. r'\<lparr>rd_state := IN_QUOTED_FIELD\<rparr>) (parse_add_char r DQUOTE)
          else if c = Some COMMA then Inr ((parse_save_field r)\<lparr>rd_state := START_FIELD\<rparr>)
          else if end_of_line c
          then Inr ((parse_save_field r)\<lparr>rd_state := (if c = None then START_RECORD else EAT_CRNL)\<rparr>)
          else (case c of
                  None \<Rightarrow> Inr r
                | Some ch \<Rightarrow> map_sum id (\<lambda>r'. r'\<lparr>rd_state := IN_FIELD\<rparr>) (parse_add_char r ch))
      | EAT_CRNL \<Rightarrow>
          if c = Some LF \<or> c = Some CR then Inr r
          else if c = None then Inr (r\<lparr>rd_state := START_RECORD\<rparr>)
          else Inl CsvError)"

fun process_chars :: "reader \<Rightarrow> string \<Rightarrow> error + reader" where
  "process_chars r [] = Inr r"
| "process_chars r (c # cs) =
     (case parse_process_char r (Some c) of Inl e \<Rightarrow> Inl e | Inr r' \<Rightarrow> process_chars r' cs)"

fun reader_rows :: "reader \<Rightarrow> string list \<Rightarrow> string list list \<times> error option" where
  \<comment> \<open>the rows the reader yields from the lines, in order, and the exception that ends
      the iteration early, if any. A row is complete when a line leaves the reader at the
      start of a record; at the end of the input an unfinished field is saved.\<close>
  "reader_rows r [] =
     (if rd_field r \<noteq> [] \<or> rd_state r = IN_QUOTED_FIELD
      then ([rd_fields (parse_save_field r)], None) else ([], None))"
| "reader_rows r (l # ls) =
     (case process_chars r l of
        Inl e \<Rightarrow> ([], Some e)
      | Inr r1 \<Rightarrow>
          (case parse_process_char r1 None of
             Inl e \<Rightarrow> ([], Some e)
           | Inr r2 \<Rightarrow>
               if rd_state r2 \<noteq> START_RECORD then reader_rows r2 ls
               else (case reader_rows parse_reset ls of
                       (rows, e) \<Rightarrow> (rd_fields r2 # rows, e))))"

subsection \<open>The two methods\<close>

definition cabecera :: "string list" where
  "cabecera = [''codigo'', ''nombre'', ''precio'', ''tipo'', ''cantidad'']"

definition fila :: "(rat \<Rightarrow> string) \<Rightarrow> Producto \<Rightarrow> string list" where
  \<comment> \<open>the writer writes a string as it is and any other value through \<^verbatim>\<open>str\<close>\<close>
  "fila float_repr p =
     [codigo p, nombre p, str_num float_repr (precio p), tipo p, str_int (cantidad p)]"

definition guardar :: "(rat \<Rightarrow> string) \<Rightarrow> filesystem \<Rightarrow> Catalogo \<Rightarrow> string \<Rightarrow> filesystem" where
  "guardar float_repr fs self archivo =
     fs(archivo \<mapsto> writerow cabecera @ concat (map (\<lambda>p. writerow (fila float_repr p)) (productos self)))"

fun leer_loop :: "Catalogo \<Rightarrow> string list list \<Rightarrow> error option \<Rightarrow> error option \<times> Catalogo" where
  \<comment> \<open>the loop over the rows; \<open>fin\<close> is the exception that ends the reader's iteration\<close>
  "leer_loop self [] fin = (fin, self)"
| "leer_loop self (row # rows) fin =
     (case row of
        [c, n, pr, t, q] \<Rightarrow>
          (case py_float pr of
             Inl e \<Rightarrow> (Some e, self)
           | Inr f \<Rightarrow>
               (case py_int q of
                  Inl e \<Rightarrow> (Some e, self)
                | Inr i \<Rightarrow>
                    (case Producto_init c n f t i of
                       Inl e \<Rightarrow> (Some e, self)
                     | Inr p \<Rightarrow> leer_loop (self\<lparr>productos := productos self @ [p]\<rparr>) rows fin)))
      | _ \<Rightarrow> (Some ValueError, self))"

definition leer :: "filesystem \<Rightarrow> Catalogo \<Rightarrow> string \<Rightarrow> error option \<times> Catalogo" where
  \<comment> \<open>the exception raised, if any, and the catalog as it is afterwards\<close>
  "leer fs self archivo =
     (let self1 = self\<lparr>productos := []\<rparr>
      in case fs archivo of
           None \<Rightarrow> (Some FileNotFoundError, self1)
         | Some contents \<Rightarrow>
             (case reader_rows parse_reset (file_lines [] (universal_newlines contents)) of
                ([], None) \<Rightarrow> (Some StopIteration, self1)
              | ([], Some e) \<Rightarrow> (Some e, self1)
              | (header # rows, fin) \<Rightarrow> leer_loop self1 rows fin))"

section \<open>class Cliente\<close>

record Cliente =
  nombre_cliente :: string
  cuit :: string

definition cuit_ok :: "string \<Rightarrow> bool" where
  \<comment> \<open>\<^verbatim>\<open>and\<close> evaluates from left to right, so the two indexings are in range\<close>
  "cuit_ok v =
     (length v = 13 \<and> v ! 2 = CHR ''-'' \<and> v ! 11 = CHR ''-''
      \<and> isdigit (filter (\<lambda>c. c \<noteq> CHR ''-'') v))"

definition Cliente_set_nombre :: "Cliente \<Rightarrow> string \<Rightarrow> error option \<times> Cliente" where
  "Cliente_set_nombre self v =
     (if nombre_ok v then (None, self\<lparr>nombre_cliente := v\<rparr>) else (Some ValueError, self))"

definition Cliente_set_cuit :: "Cliente \<Rightarrow> string \<Rightarrow> error option \<times> Cliente" where
  "Cliente_set_cuit self v =
     (if cuit_ok v then (None, self\<lparr>cuit := v\<rparr>) else (Some ValueError, self))"

definition Cliente_init :: "string \<Rightarrow> string \<Rightarrow> error + Cliente" where
  "Cliente_init n c =
     (if \<not> nombre_ok n then Inl ValueError
      else if \<not> cuit_ok c then Inl ValueError
      else Inr \<lparr>nombre_cliente = n, cuit = c\<rparr>)"

definition cuit_formato :: "string \<Rightarrow> bool" where
  \<comment> \<open>the format the specification and the setter's message name, XX-XXXXXXXX-X:
      13 characters, which are two digits, a hyphen, eight digits, a hyphen and a digit\<close>
  "cuit_formato v =
     (length v = 13 \<and> isdigit (take 2 v) \<and> v ! 2 = CHR ''-''
      \<and> isdigit (take 8 (drop 3 v)) \<and> v ! 11 = CHR ''-'' \<and> isdigit (drop 12 v))"

section \<open>class Factura\<close>

text \<open>
  The class attribute \<^verbatim>\<open>_ultimo_numero\<close> is the one piece of state shared by all
  invoices: the operations that touch it take its value and return the new one. An
  invoice refers to its catalog, its client and its products; \<^verbatim>\<open>Producto\<close> defines no
  \<^verbatim>\<open>__eq__\<close>, so \<^verbatim>\<open>item['producto'] == producto\<close> compares object identity, and a
  product is represented here by its reference. An item is the pair of the product and
  the quantity.
\<close>

record Factura =
  catalogo :: ref
  cliente :: ref
  fecha :: nat
  items :: "(ref \<times> int) list"
  numero :: int

definition Factura_init :: "int \<Rightarrow> ref \<Rightarrow> ref \<Rightarrow> nat \<Rightarrow> Factura \<times> int" where
  \<comment> \<open>\<open>now\<close> is the reading of the clock; the result is the invoice and the counter\<close>
  "Factura_init ultimo_numero cat cli now =
     (let ultimo_numero' = ultimo_numero + 1
      in (\<lparr>catalogo = cat, cliente = cli, fecha = now, items = [], numero = ultimo_numero'\<rparr>,
          ultimo_numero'))"

definition ultimaFactura :: "int \<Rightarrow> int \<Rightarrow> int" where
  "ultimaFactura ultimo_numero n = n"

definition nuevoNumero :: "int \<Rightarrow> int \<times> int" where
  "nuevoNumero ultimo_numero = (ultimo_numero + 1, ultimo_numero + 1)"

fun agregar_loop :: "(ref \<times> int) list \<Rightarrow> ref \<Rightarrow> int \<Rightarrow> (ref \<times> int) list option" where
  \<comment> \<open>\<open>Some\<close> the updated items when the loop returns early, \<open>None\<close> when it falls through\<close>
  "agregar_loop [] producto n = None"
| "agregar_loop (item # rest) producto n =
     (if fst item = producto then Some ((fst item, snd item + n) # rest)
      else map_option ((#) item) (agregar_loop rest producto n))"

definition Factura_agregar :: "Factura \<Rightarrow> ref \<Rightarrow> int \<Rightarrow> Factura" where
  "Factura_agregar self producto n =
     (case agregar_loop (items self) producto n of
        Some its \<Rightarrow> self\<lparr>items := its\<rparr>
      | None \<Rightarrow> self\<lparr>items := items self @ [(producto, n)]\<rparr>)"

definition Factura_cantidadProductos :: "Factura \<Rightarrow> nat" where
  "Factura_cantidadProductos self = length (items self)"

definition Factura_cantidadUnidades :: "Factura \<Rightarrow> int" where
  "Factura_cantidadUnidades self = foldl (+) 0 (map snd (items self))"

fun crear_facturas :: "int \<Rightarrow> (ref \<times> ref \<times> nat) list \<Rightarrow> Factura list \<times> int" where
  \<comment> \<open>one construction after the other, for the given arguments\<close>
  "crear_facturas ultimo_numero [] = ([], ultimo_numero)"
| "crear_facturas ultimo_numero ((cat, cli, now) # rest) =
     (let (f, u) = Factura_init ultimo_numero cat cli now;
          (fs, u') = crear_facturas u rest
      in (f # fs, u'))"

section \<open>Example objects\<close>

text \<open>
  A store with three list objects besides the two default lists, two products, offers
  built with and without explicit lists, and the catalog they are registered in.
\<close>

definition ex_store :: store where
  "ex_store = (\<lambda>r. if r = 2 then [''galleta''] else if r = 3 then [''0003'']
                    else if r = 4 then [''gaseosa''] else [])"

definition ex_galleta :: Producto where
  "ex_galleta = \<lparr>codigo = ''0003'', nombre = ''Sonrisa'', precio = PInt 10, tipo = ''galleta'', cantidad = 50\<rparr>"

definition ex_gaseosa :: Producto where
  "ex_gaseosa = \<lparr>codigo = ''0001'', nombre = ''Coca Cola'', precio = PInt 100, tipo = ''gaseosa'', cantidad = 100\<rparr>"

definition ex_2x1 :: Oferta where
  "ex_2x1 = Oferta2x1_init ''Oferta 2x1 en galletas'' None (Some 2)"


definition ex_descuento_0003 :: Oferta where
  "ex_descuento_0003 = OfertaDescuento_init (PInt 20) ''20% de descuento en 0003'' (Some 3) None"

definition ex_catalogo :: Catalogo where
  "ex_catalogo =
     registrarOferta
       (registrarOferta
          (Catalogo_agregar (Catalogo_agregar Catalogo_init ex_gaseosa) ex_galleta) ex_2x1)
       ex_descuento_0003"

definition ex_duplicado :: Producto where
  "ex_duplicado = \<lparr>codigo = ''0001'', nombre = ''Pepsi'', precio = PInt 90, tipo = ''gaseosa'', cantidad = 10\<rparr>"

definition ex_o1 :: Oferta where
  "ex_o1 = Oferta2x1_init ''primera'' None None"

definition ex_o2 :: Oferta where
  "ex_o2 = Oferta2x1_init ''segunda'' None None"

definition store0 :: store where
  \<comment> \<open>the store when the module has just been loaded: the default lists are empty\<close>
  "store0 = (\<lambda>r. [])"

definition ex_cliente :: Cliente where
  "ex_cliente = \<lparr>nombre_cliente = ''Juan Perez'', cuit = ''20-12345678-9''\<rparr>"

definition ex_factura :: Factura where
  "ex_factura = fst (Factura_init 0 0 1 0)"

definition ex_sin_stock :: Producto where
  "ex_sin_stock = \<lparr>codigo = ''0005'', nombre = ''Agua'', precio = PInt 15, tipo = ''agua'', cantidad = 0\<rparr>"

definition ex_catalogo_sin_stock :: Catalogo where
  "ex_catalogo_sin_stock = Catalogo_agregar ex_catalogo ex_sin_stock"

text \<open>
  A catalog with one product whose name holds a carriage return, the text that
  \<^verbatim>\<open>guardar\<close> writes for it, and the lines that \<^verbatim>\<open>leer\<close> gets from that text.
\<close>

definition p_cr :: Producto where
  "p_cr = \<lparr>codigo = ''0001'', nombre = [CHR ''a'', CR, CHR ''b''], precio = PInt 10, tipo = ''x'', cantidad = 5\<rparr>"

definition cat_cr :: Catalogo where
  "cat_cr = \<lparr>productos = [p_cr], ofertas = []\<rparr>"

definition contenido :: string where
  "contenido = ''codigo,nombre,precio,tipo,cantidad'' @ [CR, LF] @ ''0001,'' @ [DQUOTE, CHR ''a'', CR, CHR ''b'', DQUOTE] @ '',10,x,5'' @ [CR, LF]"

definition linea1 :: string where
  "linea1 = ''codigo,nombre,precio,tipo,cantidad'' @ [LF]"

definition linea2 :: string where
  "linea2 = ''0001,'' @ [DQUOTE, CHR ''a'', LF]"

definition linea3 :: string where
  "linea3 = [CHR ''b'', DQUOTE] @ '',10,x,5'' @ [LF]"

definition lineas :: "string list" where
  "lineas = [linea1, linea2, linea3]"

section \<open>Offer resolution and discounts\<close>

lemma find_first_index:
  assumes "i < length xs" and "P (xs ! i)" and "\<forall>j<i. \<not> P (xs ! j)"
  shows "List.find P xs = Some (xs ! i)"
  using assms by (auto simp: find_Some_iff)

lemma find_none_index: "(List.find P xs = None) = (\<forall>i<length xs. \<not> P (xs ! i))"
  by (auto simp: find_None_iff in_set_conv_nth)

lemma buscarOferta_loop_find:
  "buscarOferta_loop h os p n = List.find (\<lambda>oferta. esAplicable h oferta p n) os"
  by (induction os) simp_all

lemma ex_ofertas: "ofertas ex_catalogo = [ex_2x1, ex_descuento_0003]"
  by (simp add: ex_catalogo_def registrarOferta_def Catalogo_agregar_def Catalogo_init_def)

lemma ex_productos: "productos ex_catalogo = [ex_gaseosa, ex_galleta]"
  by (simp add: ex_catalogo_def registrarOferta_def Catalogo_agregar_def Catalogo_init_def)

lemma ex_2x1_galleta: "esAplicable ex_store ex_2x1 ex_galleta n"
  by (simp add: esAplicable_def ex_store_def ex_2x1_def ex_galleta_def Oferta2x1_init_def Oferta_init_def)

lemma ex_2x1_gaseosa: "\<not> esAplicable ex_store ex_2x1 ex_gaseosa n"
  by (simp add: esAplicable_def ex_store_def ex_2x1_def ex_gaseosa_def Oferta2x1_init_def Oferta_init_def
      default_codigos_def)

lemma ex_2x1_clase: "clase ex_2x1 = ClaseOferta2x1"
  by (simp add: ex_2x1_def Oferta2x1_init_def)

text \<open>
  C1. \<^const>\<open>buscarOferta\<close> goes through the offers in the order of registration and
  returns the first one that is applicable to the product: it returns none exactly when
  no registered offer is applicable, and the offer at position \<open>i\<close> when that one is
  applicable and no earlier one is, whatever comes later. \<^const>\<open>calcularDescuento\<close> is
  then the result of \<^const>\<open>aplicar\<close> for that offer, and the integer 0 when no offer
  is applicable.
\<close>

theorem buscarOferta_first_applicable:
  "(buscarOferta h c p n = None \<longleftrightarrow> (\<forall>i<length (ofertas c). \<not> esAplicable h (ofertas c ! i) p n))
   \<and> (\<forall>i<length (ofertas c).
         esAplicable h (ofertas c ! i) p n \<and> (\<forall>j<i. \<not> esAplicable h (ofertas c ! j) p n) \<longrightarrow>
           buscarOferta h c p n = Some (ofertas c ! i)
           \<and> calcularDescuento h c p n = aplicar h (ofertas c ! i) p n)
   \<and> ((\<forall>i<length (ofertas c). \<not> esAplicable h (ofertas c ! i) p n) \<longrightarrow>
         calcularDescuento h c p n = Inr (PInt 0))"
proof -
  let ?P = "\<lambda>oferta. esAplicable h oferta p n"
  have none: "(buscarOferta h c p n = None) = (\<forall>i<length (ofertas c). \<not> ?P (ofertas c ! i))"
    by (simp add: buscarOferta_def buscarOferta_loop_find find_none_index)
  have first: "buscarOferta h c p n = Some (ofertas c ! i)"
    if "i < length (ofertas c)" "?P (ofertas c ! i)" "\<forall>j<i. \<not> ?P (ofertas c ! j)" for i
    using that by (simp add: buscarOferta_def buscarOferta_loop_find find_first_index)
  have zero: "calcularDescuento h c p n = Inr (PInt 0)" if "buscarOferta h c p n = None"
    using that by (simp add: calcularDescuento_def)
  have app: "calcularDescuento h c p n = aplicar h x p n" if "buscarOferta h c p n = Some x" for x
    using that by (simp add: calcularDescuento_def)
  show ?thesis
    using none first zero app by blast
qed

text \<open>
  Witness for C1: in the example catalog both registered offers are applicable to the
  biscuit (the first by category, the second by code); the first one is returned and its
  discount, 10 * (5 // 2) = 20, is the one computed.
\<close>

theorem buscarOferta_first_applicable_witness:
  "esAplicable ex_store (ofertas ex_catalogo ! 0) ex_galleta 5
   \<and> esAplicable ex_store (ofertas ex_catalogo ! 1) ex_galleta 5
   \<and> buscarOferta ex_store ex_catalogo ex_galleta 5 = Some ex_2x1
   \<and> calcularDescuento ex_store ex_catalogo ex_galleta 5 = Inr (PInt 20)"
proof -
  have a0: "esAplicable ex_store (ofertas ex_catalogo ! 0) ex_galleta 5"
    by (simp add: ex_ofertas ex_2x1_galleta)
  have a1: "esAplicable ex_store (ofertas ex_catalogo ! 1) ex_galleta 5"
    by (simp add: ex_ofertas esAplicable_def ex_store_def ex_galleta_def ex_descuento_0003_def
        OfertaDescuento_init_def Oferta_init_def)
  have len: "0 < length (ofertas ex_catalogo)"
    by (simp add: ex_ofertas)
  have ap: "aplicar ex_store (ofertas ex_catalogo ! 0) ex_galleta 5 = Inr (PInt 20)"
    using a0 by (simp add: aplicar_def ex_ofertas ex_2x1_clase) (simp add: ex_galleta_def)
  from buscarOferta_first_applicable [of ex_store ex_catalogo ex_galleta 5] len a0
  have "buscarOferta ex_store ex_catalogo ex_galleta 5 = Some (ofertas ex_catalogo ! 0)
        \<and> calcularDescuento ex_store ex_catalogo ex_galleta 5
            = aplicar ex_store (ofertas ex_catalogo ! 0) ex_galleta 5"
    by blast
  with a0 a1 ap show ?thesis by (simp add: ex_ofertas)
qed










section \<open>The default lists of Oferta\<close>

text \<open>
  C2 does not hold of the code. Two offers built without \<^verbatim>\<open>codigos\<close> and
  \<^verbatim>\<open>tipos\<close> hold the same two list objects. In a freshly loaded module the second
  offer applies to no product; after \<^verbatim>\<open>o1.codigos.append('0001')\<close>, or
  \<^verbatim>\<open>o1.tipos.append('gaseosa')\<close>, the second offer applies to the soda, and so does
  every offer built with the defaults afterwards.
\<close>

theorem Oferta_default_lists_shared:
  "codigos ex_o1 = codigos ex_o2 \<and> tipos ex_o1 = tipos ex_o2
   \<and> \<not> esAplicable store0 ex_o2 ex_gaseosa 1
   \<and> list_append store0 (codigos ex_o1) ''0001'' (codigos ex_o2) = [''0001'']
   \<and> esAplicable (list_append store0 (codigos ex_o1) ''0001'') ex_o2 ex_gaseosa 1
   \<and> esAplicable (list_append store0 (tipos ex_o1) ''gaseosa'') ex_o2 ex_gaseosa 1
   \<and> esAplicable (list_append store0 (codigos ex_o1) ''0001'')
        (Oferta2x1_init ''tercera'' None None) ex_gaseosa 1"
  by (simp add: ex_o1_def ex_o2_def store0_def Oferta2x1_init_def Oferta_init_def esAplicable_def
      list_append_def ex_gaseosa_def default_codigos_def default_tipos_def)

section \<open>Validation\<close>

lemma Producto_setters_reject:
  "\<not> codigo_ok c \<Longrightarrow> Producto_set_codigo self c = (Some ValueError, self)"
  "\<not> nombre_ok n \<Longrightarrow> Producto_set_nombre self n = (Some ValueError, self)"
  "\<not> precio_ok pr \<Longrightarrow> Producto_set_precio self pr = (Some ValueError, self)"
  "\<not> tipo_ok t \<Longrightarrow> Producto_set_tipo self t = (Some ValueError, self)"
  "\<not> cantidad_ok q \<Longrightarrow> Producto_set_cantidad self q = (Some ValueError, self)"
  by (simp_all add: Producto_set_codigo_def Producto_set_nombre_def Producto_set_precio_def
      Producto_set_tipo_def Producto_set_cantidad_def)

lemma Producto_setters_accept:
  "codigo_ok c \<Longrightarrow> Producto_set_codigo self c = (None, self\<lparr>codigo := c\<rparr>)"
  "nombre_ok n \<Longrightarrow> Producto_set_nombre self n = (None, self\<lparr>nombre := n\<rparr>)"
  "precio_ok pr \<Longrightarrow> Producto_set_precio self pr = (None, self\<lparr>precio := pr\<rparr>)"
  "tipo_ok t \<Longrightarrow> Producto_set_tipo self t = (None, self\<lparr>tipo := t\<rparr>)"
  "cantidad_ok q \<Longrightarrow> Producto_set_cantidad self q = (None, self\<lparr>cantidad := q\<rparr>)"
  by (simp_all add: Producto_set_codigo_def Producto_set_nombre_def Producto_set_precio_def
      Producto_set_tipo_def Producto_set_cantidad_def)

lemma Producto_init_rejects:
  "\<not> (codigo_ok c \<and> nombre_ok n \<and> precio_ok pr \<and> tipo_ok t \<and> cantidad_ok q) \<Longrightarrow>
     Producto_init c n pr t q = Inl ValueError"
  by (auto simp: Producto_init_def)

lemma Cliente_set_cuit_rejects:
  "\<not> cuit_ok v \<Longrightarrow> Cliente_set_cuit self v = (Some ValueError, self)"
  by (simp add: Cliente_set_cuit_def)

text \<open>
  The setter accepts every tax id of the format XX-XXXXXXXX-X. The converse is what
  fails.
\<close>

lemma digit_not_hyphen: "digit_char c \<Longrightarrow> c \<noteq> CHR ''-''"
  by (auto simp: digit_char_def)

lemma filter_digits: "list_all digit_char s \<Longrightarrow> filter (\<lambda>c. c \<noteq> CHR ''-'') s = s"
  by (induction s) (auto simp: digit_not_hyphen)

lemma cuit_split:
  assumes "length v = 13"
  shows "v = take 2 v @ [v ! 2] @ take 8 (drop 3 v) @ [v ! 11] @ drop 12 v"
proof -
  have a: "v = take 2 v @ v ! 2 # drop 3 v"
    using assms id_take_nth_drop [of 2 v] by (simp add: numeral_3_eq_3 numeral_2_eq_2)
  have b: "drop 3 v = take 8 (drop 3 v) @ (drop 3 v) ! 8 # drop 9 (drop 3 v)"
    using assms id_take_nth_drop [of 8 "drop 3 v"] by simp
  have c: "(drop 3 v) ! 8 = v ! 11" "drop 9 (drop 3 v) = drop 12 v"
    using assms by simp_all
  from a b c show ?thesis by (metis append_Cons append_Nil)
qed

lemma cuit_formato_accepted: "cuit_formato v \<Longrightarrow> cuit_ok v"
proof -
  assume f: "cuit_formato v"
  then have len: "length v = 13" and h: "v ! 2 = CHR ''-''" "v ! 11 = CHR ''-''"
    and d: "list_all digit_char (take 2 v)" "list_all digit_char (take 8 (drop 3 v))"
      "list_all digit_char (drop 12 v)"
    by (simp_all add: cuit_formato_def isdigit_def)
  have "filter (\<lambda>c. c \<noteq> CHR ''-'') v
      = filter (\<lambda>c. c \<noteq> CHR ''-'') (take 2 v @ [v ! 2] @ take 8 (drop 3 v) @ [v ! 11] @ drop 12 v)"
    using cuit_split [OF len] by simp
  also have "\<dots> = take 2 v @ take 8 (drop 3 v) @ drop 12 v"
    by (simp add: h filter_digits d)
  finally have e: "filter (\<lambda>c. c \<noteq> CHR ''-'') v = take 2 v @ take 8 (drop 3 v) @ drop 12 v" .
  have "take 2 v \<noteq> []" using len by auto
  then have "isdigit (filter (\<lambda>c. c \<noteq> CHR ''-'') v)"
    by (simp add: e isdigit_def d)
  with len h show ?thesis by (simp add: cuit_ok_def)
qed

lemma cuit_ok_extra_hyphen: "cuit_ok ''12-3456-789-0''" "cuit_ok ''1------------''"
  by (simp_all add: cuit_ok_def isdigit_def digit_char_def)

lemma cuit_formato_extra_hyphen:
  "\<not> cuit_formato ''12-3456-789-0''" "\<not> cuit_formato ''1------------''"
  by (simp_all add: cuit_formato_def isdigit_def digit_char_def)

text \<open>
  C7 does not hold of the code for the tax id. The setter removes every hyphen before
  it tests for digits, so a string of 13 characters with hyphens at positions 2 and 11
  is accepted whenever its other characters are digits or hyphens and one of them is a
  digit: \<^verbatim>\<open>12-3456-789-0\<close> and \<^verbatim>\<open>1------------\<close> are stored, by the setter and by
  the constructor, though neither has the format XX-XXXXXXXX-X.
\<close>

theorem Cliente_cuit_extra_hyphen_accepted:
  "\<not> cuit_formato ''12-3456-789-0''
   \<and> Cliente_set_cuit ex_cliente ''12-3456-789-0'' = (None, ex_cliente\<lparr>cuit := ''12-3456-789-0''\<rparr>)
   \<and> Cliente_init ''Juan Perez'' ''12-3456-789-0''
        = Inr \<lparr>nombre_cliente = ''Juan Perez'', cuit = ''12-3456-789-0''\<rparr>
   \<and> \<not> cuit_formato ''1------------''
   \<and> Cliente_init ''Juan Perez'' ''1------------''
        = Inr \<lparr>nombre_cliente = ''Juan Perez'', cuit = ''1------------''\<rparr>"
  by (simp add: cuit_formato_extra_hyphen cuit_ok_extra_hyphen Cliente_set_cuit_def Cliente_init_def
      nombre_ok_def)

section \<open>Catalogo.agregar and Catalogo.buscar\<close>

lemma buscar_loop_find: "buscar_loop ps c = List.find (\<lambda>p. codigo p = c) ps"
  by (induction ps) simp_all

text \<open>
  C10. \<^const>\<open>Catalogo_agregar\<close> has no failing branch and no test: it appends the
  product, so the number of products grows by one and a product with the same code that
  was in the catalog is still there, next to the new one. \<^const>\<open>buscar\<close> returns none
  exactly when no product has the code, and the product at position \<open>i\<close> when that one
  has the code and no earlier one has.
\<close>

theorem Catalogo_agregar_buscar:
  "productos (Catalogo_agregar c p) = productos c @ [p]
   \<and> ofertas (Catalogo_agregar c p) = ofertas c
   \<and> Catalogo_cantidadProductos (Catalogo_agregar c p) = Catalogo_cantidadProductos c + 1
   \<and> (\<forall>q\<in>set (productos c). codigo q = codigo p \<longrightarrow>
         q \<in> set (productos (Catalogo_agregar c p)) \<and> p \<in> set (productos (Catalogo_agregar c p)))
   \<and> (buscar c k = None \<longleftrightarrow> (\<forall>i<length (productos c). codigo (productos c ! i) \<noteq> k))
   \<and> (\<forall>i<length (productos c).
         codigo (productos c ! i) = k \<and> (\<forall>j<i. codigo (productos c ! j) \<noteq> k) \<longrightarrow>
           buscar c k = Some (productos c ! i))"
proof -
  have none: "(buscar c k = None) = (\<forall>i<length (productos c). codigo (productos c ! i) \<noteq> k)"
    by (simp add: buscar_def buscar_loop_find find_none_index)
  have first: "buscar c k = Some (productos c ! i)"
    if "i < length (productos c)" "codigo (productos c ! i) = k"
       "\<forall>j<i. codigo (productos c ! j) \<noteq> k" for i
    using that by (simp add: buscar_def buscar_loop_find find_first_index)
  have app: "productos (Catalogo_agregar c p) = productos c @ [p]"
    "ofertas (Catalogo_agregar c p) = ofertas c"
    "Catalogo_cantidadProductos (Catalogo_agregar c p) = Catalogo_cantidadProductos c + 1"
    by (simp_all add: Catalogo_agregar_def Catalogo_cantidadProductos_def)
  have both: "q \<in> set (productos (Catalogo_agregar c p)) \<and> p \<in> set (productos (Catalogo_agregar c p))"
    if "q \<in> set (productos c)" for q
    using that by (simp add: app)
  show ?thesis using none first app both by blast
qed

text \<open>
  Witness for C10: a second product with code 0001 is added to the example catalog; both
  are in the list, the search for 0001 returns the earlier one, and the search for a
  code that is absent returns none.
\<close>

theorem Catalogo_agregar_buscar_witness:
  "ex_gaseosa \<in> set (productos ex_catalogo) \<and> codigo ex_gaseosa = codigo ex_duplicado
   \<and> productos (Catalogo_agregar ex_catalogo ex_duplicado) = [ex_gaseosa, ex_galleta, ex_duplicado]
   \<and> Catalogo_cantidadProductos (Catalogo_agregar ex_catalogo ex_duplicado) = 3
   \<and> buscar (Catalogo_agregar ex_catalogo ex_duplicado) ''0001'' = Some ex_gaseosa
   \<and> buscar (Catalogo_agregar ex_catalogo ex_duplicado) ''0003'' = Some ex_galleta
   \<and> buscar (Catalogo_agregar ex_catalogo ex_duplicado) ''9999'' = None"
proof -
  let ?c = "Catalogo_agregar ex_catalogo ex_duplicado"
  note ps = ex_productos
  have cod: "codigo ex_gaseosa = ''0001''" "codigo ex_galleta = ''0003''" "codigo ex_duplicado = ''0001''"
    by (simp_all add: ex_gaseosa_def ex_galleta_def ex_duplicado_def)
  note t = Catalogo_agregar_buscar [of ex_catalogo ex_duplicado]
  have ps': "productos ?c = [ex_gaseosa, ex_galleta, ex_duplicado]"
    using t [of "''0001''"] by (simp add: ps)
  have n: "Catalogo_cantidadProductos ?c = 3"
    using t [of "''0001''"] by (simp add: Catalogo_cantidadProductos_def ps)
  have b0: "buscar ?c ''0001'' = Some ex_gaseosa"
  proof -
    have "0 < length (productos ?c) \<and> codigo (productos ?c ! 0) = ''0001''
        \<and> (\<forall>j<0. codigo (productos ?c ! j) \<noteq> ''0001'')"
      by (simp add: ps' cod)
    with Catalogo_agregar_buscar [of ?c ex_duplicado "''0001''"]
    have "buscar ?c ''0001'' = Some (productos ?c ! 0)" by blast
    then show ?thesis by (simp add: ps')
  qed
  have b1: "buscar ?c ''0003'' = Some ex_galleta"
  proof -
    have "1 < length (productos ?c) \<and> codigo (productos ?c ! 1) = ''0003''
        \<and> (\<forall>j<1. codigo (productos ?c ! j) \<noteq> ''0003'')"
      by (simp add: ps' cod)
    with Catalogo_agregar_buscar [of ?c ex_duplicado "''0003''"]
    have "buscar ?c ''0003'' = Some (productos ?c ! 1)" by blast
    then show ?thesis by (simp add: ps')
  qed
  have b2: "buscar ?c ''9999'' = None"
  proof -
    have "\<forall>i<length (productos ?c). codigo (productos ?c ! i) \<noteq> ''9999''"
      by (auto simp: ps' cod less_Suc_eq_0_disj numeral_3_eq_3)
    with Catalogo_agregar_buscar [of ?c ex_duplicado "''9999''"] show ?thesis by blast
  qed
  from ps cod ps' n b0 b1 b2 show ?thesis by simp
qed

section \<open>Factura\<close>

lemma crear_facturas_length: "length (fst (crear_facturas u args)) = length args"
  by (induction u args rule: crear_facturas.induct)
    (simp_all add: Factura_init_def Let_def case_prod_beta)

lemma crear_facturas_counter: "snd (crear_facturas u args) = u + int (length args)"
  by (induction u args rule: crear_facturas.induct)
    (simp_all add: Factura_init_def Let_def case_prod_beta)

lemma crear_facturas_nth:
  "i < length args \<Longrightarrow> numero (fst (crear_facturas u args) ! i) = u + 1 + int i"
proof (induction args arbitrary: u i)
  case Nil
  then show ?case by simp
next
  case (Cons a rest)
  obtain cat cli now where a: "a = (cat, cli, now)" by (cases a)
  show ?case
  proof (cases i)
    case 0
    then show ?thesis by (simp add: a Factura_init_def Let_def case_prod_beta)
  next
    case (Suc k)
    with Cons.prems have "k < length rest" by simp
    from Cons.IH [OF this, of "u + 1"] Suc show ?thesis
      by (simp add: a Factura_init_def Let_def case_prod_beta)
  qed
qed

text \<open>
  C5. Each construction adds one to the shared counter and gives the invoice the new
  value. So the invoices built one after the other from the counter value \<open>u\<close> carry
  the numbers \<open>u + 1\<close>, \<open>u + 2\<close>, ..., each one more than the one before, the counter
  ends at \<open>u\<close> plus their number, and the invoice built after \<^verbatim>\<open>ultimaFactura(v)\<close>
  carries \<open>v + 1\<close>.
\<close>

theorem factura_numeracion:
  "length (fst (crear_facturas u args)) = length args
   \<and> (\<forall>i<length args. numero (fst (crear_facturas u args) ! i) = u + 1 + int i)
   \<and> (\<forall>i. Suc i < length args \<longrightarrow>
         numero (fst (crear_facturas u args) ! Suc i) = numero (fst (crear_facturas u args) ! i) + 1)
   \<and> snd (crear_facturas u args) = u + int (length args)
   \<and> numero (fst (Factura_init u cat cli now)) = u + 1
   \<and> snd (Factura_init u cat cli now) = u + 1
   \<and> numero (fst (Factura_init (ultimaFactura u v) cat cli now)) = v + 1"
proof -
  have step: "numero (fst (crear_facturas u args) ! Suc i) = numero (fst (crear_facturas u args) ! i) + 1"
    if "Suc i < length args" for i
    using that crear_facturas_nth [of "Suc i" args u] crear_facturas_nth [of i args u] by simp
  show ?thesis
    using step by (simp add: crear_facturas_length crear_facturas_counter crear_facturas_nth
        Factura_init_def ultimaFactura_def Let_def)
qed

text \<open>
  Witness for C5: three invoices from the counter value 7 carry 8, 9 and 10; after the
  counter is set to 41 the next invoice carries 42.
\<close>

theorem factura_numeracion_witness:
  "map numero (fst (crear_facturas 7 [(0, 1, 10), (0, 1, 11), (0, 2, 12)])) = [8, 9, 10]
   \<and> numero (fst (crear_facturas 7 [(0, 1, 10), (0, 1, 11), (0, 2, 12)]) ! Suc 0) = 9
   \<and> snd (crear_facturas 7 [(0, 1, 10), (0, 1, 11), (0, 2, 12)]) = 10
   \<and> numero (fst (Factura_init (ultimaFactura 10 41) 0 1 13)) = 42"
  using factura_numeracion [of 7 "[(0, 1, 10), (0, 1, 11), (0, 2, 12)]" 0 1 13 41]
  by (simp add: Factura_init_def Let_def ultimaFactura_def case_prod_beta)

lemma agregar_loop_None: "(agregar_loop its p n = None) = (p \<notin> fst ` set its)"
  by (induction its) auto

lemma agregar_loop_Some:
  "p \<in> fst ` set its \<Longrightarrow>
     \<exists>i<length its. fst (its ! i) = p \<and> (\<forall>j<i. fst (its ! j) \<noteq> p)
        \<and> agregar_loop its p n = Some (its[i := (p, snd (its ! i) + n)])"
proof (induction its)
  case Nil
  then show ?case by simp
next
  case (Cons item rest)
  show ?case
  proof (cases "fst item = p")
    case True
    then have "0 < length (item # rest) \<and> fst ((item # rest) ! 0) = p
        \<and> (\<forall>j<0. fst ((item # rest) ! j) \<noteq> p)
        \<and> agregar_loop (item # rest) p n = Some ((item # rest)[0 := (p, snd ((item # rest) ! 0) + n)])"
      by simp
    then show ?thesis by blast
  next
    case False
    with Cons.prems have "p \<in> fst ` set rest" by auto
    from Cons.IH [OF this] obtain i where i: "i < length rest" "fst (rest ! i) = p"
      "\<forall>j<i. fst (rest ! j) \<noteq> p" "agregar_loop rest p n = Some (rest[i := (p, snd (rest ! i) + n)])"
      by blast
    have "\<forall>j<Suc i. fst ((item # rest) ! j) \<noteq> p"
      using False i(3) by (auto simp: less_Suc_eq_0_disj)
    with i False have "Suc i < length (item # rest) \<and> fst ((item # rest) ! Suc i) = p
        \<and> (\<forall>j<Suc i. fst ((item # rest) ! j) \<noteq> p)
        \<and> agregar_loop (item # rest) p n = Some ((item # rest)[Suc i := (p, snd ((item # rest) ! Suc i) + n)])"
      by simp
    then show ?thesis by blast
  qed
qed

lemma items_agregar:
  "items (Factura_agregar f p n) =
     (case agregar_loop (items f) p n of Some its \<Rightarrow> its | None \<Rightarrow> items f @ [(p, n)])"
  by (simp add: Factura_agregar_def split: option.splits)

text \<open>
  C6. When the invoice has an item for the product, \<^const>\<open>Factura_agregar\<close> adds the
  quantity to the first such item and leaves the number of items as it is; otherwise it
  appends a new item at the end. The same product added to an empty invoice with
  quantities 2 and then 3 gives the single item with quantity 5.
\<close>

theorem Factura_agregar_merges:
  "(p \<in> fst ` set (items f) \<longrightarrow>
      (\<exists>i<length (items f). fst (items f ! i) = p \<and> (\<forall>j<i. fst (items f ! j) \<noteq> p)
         \<and> items (Factura_agregar f p n) = (items f)[i := (p, snd (items f ! i) + n)])
      \<and> length (items (Factura_agregar f p n)) = length (items f))
   \<and> (p \<notin> fst ` set (items f) \<longrightarrow> items (Factura_agregar f p n) = items f @ [(p, n)])
   \<and> (items f = [] \<longrightarrow> items (Factura_agregar (Factura_agregar f p 2) p 3) = [(p, 5)])"
proof -
  have present: "(\<exists>i<length (items f). fst (items f ! i) = p \<and> (\<forall>j<i. fst (items f ! j) \<noteq> p)
         \<and> items (Factura_agregar f p n) = (items f)[i := (p, snd (items f ! i) + n)])
      \<and> length (items (Factura_agregar f p n)) = length (items f)"
    if "p \<in> fst ` set (items f)"
  proof -
    from agregar_loop_Some [OF that, of n] obtain i where i: "i < length (items f)"
      "fst (items f ! i) = p" "\<forall>j<i. fst (items f ! j) \<noteq> p"
      "agregar_loop (items f) p n = Some ((items f)[i := (p, snd (items f ! i) + n)])"
      by blast
    then have "items (Factura_agregar f p n) = (items f)[i := (p, snd (items f ! i) + n)]"
      by (simp add: Factura_agregar_def)
    with i show ?thesis by auto
  qed
  have absent: "items (Factura_agregar f p n) = items f @ [(p, n)]" if "p \<notin> fst ` set (items f)"
    using that agregar_loop_None [of "items f" p n] by (simp add: Factura_agregar_def)
  have twice: "items (Factura_agregar (Factura_agregar f p 2) p 3) = [(p, 5)]" if "items f = []"
    using that by (simp add: items_agregar)
  show ?thesis using present absent twice by blast
qed

text \<open>
  Witness for C6: on the invoice of the example, product 7 added twice gives one item of
  quantity 5; added after product 8, it is appended, and adding it again keeps two items.
\<close>

theorem Factura_agregar_merges_witness:
  "items ex_factura = []
   \<and> items (Factura_agregar (Factura_agregar ex_factura 7 2) 7 3) = [(7, 5)]
   \<and> 7 \<notin> fst ` set (items (Factura_agregar ex_factura 8 1))
   \<and> items (Factura_agregar (Factura_agregar ex_factura 8 1) 7 2) = [(8, 1), (7, 2)]
   \<and> 7 \<in> fst ` set (items (Factura_agregar (Factura_agregar ex_factura 8 1) 7 2))
   \<and> length (items (Factura_agregar (Factura_agregar (Factura_agregar ex_factura 8 1) 7 2) 7 3)) = 2"
proof -
  have e: "items ex_factura = []"
    by (simp add: ex_factura_def Factura_init_def Let_def)
  have f1: "items (Factura_agregar ex_factura 8 1) = [(8, 1)]"
    by (simp add: items_agregar e)
  have f2: "items (Factura_agregar (Factura_agregar ex_factura 8 1) 7 2) = [(8, 1), (7, 2)]"
    by (simp add: items_agregar e)
  have m: "7 \<in> fst ` set (items (Factura_agregar (Factura_agregar ex_factura 8 1) 7 2))"
    by (simp add: f2)
  have a: "7 \<notin> fst ` set (items (Factura_agregar ex_factura 8 1))"
    by (simp add: f1)
  from Factura_agregar_merges [of 7 ex_factura 0] e
  have t: "items (Factura_agregar (Factura_agregar ex_factura 7 2) 7 3) = [(7, 5)]" by blast
  from Factura_agregar_merges [of 7 "Factura_agregar (Factura_agregar ex_factura 8 1) 7 2" 3] m
  have l: "length (items (Factura_agregar (Factura_agregar (Factura_agregar ex_factura 8 1) 7 2) 7 3)) = 2"
    by (simp add: f2)
  from e t a f2 m l show ?thesis by blast
qed


section \<open>Catalogo.informe\<close>

lemma map_of_informe_paso:
  "map_of (informe_paso d p) t =
     (if t = tipo p
      then Some (case map_of d t of
                   None \<Rightarrow> (0 + cantidad p, py_add (PInt 0) (Producto_valorTotal p))
                 | Some (u, v) \<Rightarrow> (u + cantidad p, py_add v (Producto_valorTotal p)))
      else map_of d t)"
  by (auto simp: informe_paso_def Let_def update_conv' split: option.splits)

lemma distinct_informe_paso:
  "distinct (map fst d) \<Longrightarrow> distinct (map fst (informe_paso d p))"
  by (auto simp: informe_paso_def Let_def distinct_update split: option.splits)

lemma distinct_foldl_informe_paso:
  "distinct (map fst d) \<Longrightarrow> distinct (map fst (foldl informe_paso d ps))"
  by (induction ps arbitrary: d) (simp_all add: distinct_informe_paso)

lemma map_of_foldl_informe_paso:
  "map_of (foldl informe_paso d ps) t =
     (if t \<in> tipo ` set ps \<or> map_of d t \<noteq> None
      then Some (fst (case map_of d t of None \<Rightarrow> (0, PInt 0) | Some x \<Rightarrow> x)
                   + sum_list (map cantidad (filter (\<lambda>p. tipo p = t) ps)),
                 foldl py_add (snd (case map_of d t of None \<Rightarrow> (0, PInt 0) | Some x \<Rightarrow> x))
                   (map Producto_valorTotal (filter (\<lambda>p. tipo p = t) ps)))
      else None)"
proof (induction ps arbitrary: d)
  case Nil
  then show ?case by (auto split: option.splits)
next
  case (Cons p ps)
  show ?case
  proof (cases "t = tipo p")
    case True
    with Cons.IH [of "informe_paso d p"] show ?thesis
      by (simp add: map_of_informe_paso add.assoc split: option.splits prod.splits)
  next
    case False
    with Cons.IH [of "informe_paso d p"] show ?thesis
      by (simp add: map_of_informe_paso)
  qed
qed

lemma map_of_informe_tipos:
  "map_of (informe_tipos ps) t =
     (if t \<in> tipo ` set ps then Some (unidades_de_tipo ps t, valor_de_tipo ps t) else None)"
  by (simp add: informe_tipos_def map_of_foldl_informe_paso unidades_de_tipo_def valor_de_tipo_def)

lemma distinct_informe_tipos: "distinct (map fst (informe_tipos ps))"
  by (simp add: informe_tipos_def distinct_foldl_informe_paso)

lemma set_informe_tipos:
  "set (informe_tipos ps) = (\<lambda>t. (t, unidades_de_tipo ps t, valor_de_tipo ps t)) ` tipo ` set ps"
proof -
  have "(x \<in> set (informe_tipos ps)) =
        (x \<in> (\<lambda>t. (t, unidades_de_tipo ps t, valor_de_tipo ps t)) ` tipo ` set ps)" for x
  proof -
    obtain t uv where x: "x = (t, uv)" by (cases x)
    have "((t, uv) \<in> set (informe_tipos ps)) = (map_of (informe_tipos ps) t = Some uv)"
      using distinct_informe_tipos [of ps] by simp
    then show ?thesis
      unfolding x by (auto simp: map_of_informe_tipos)
  qed
  then show ?thesis by blast
qed

lemma informe_lineas_eq:
  "informe_lineas d =
     (if \<exists>x\<in>set d. fst (snd x) = 0 then Inl ZeroDivisionError
      else Inr (map (\<lambda>(t, u, v). (t, u, py_quotient v (PInt u))) d))"
  by (induction d rule: informe_lineas.induct) (auto simp: py_truediv_def)

text \<open>
  C9. The report's overall average is \<^verbatim>\<open>valorTotal / cantidadUnidades\<close> and the average
  of a category is its accumulated value divided by its accumulated units.
  \<^const>\<open>informe\<close> fails with ZeroDivisionError exactly when the total number of units
  is 0 or some category of the catalog has 0 units; when the total and the units of
  every category are positive it returns a report, with one line for each category.
\<close>

theorem informe_division:
  "(informe c = Inl ZeroDivisionError \<longleftrightarrow>
      Catalogo_cantidadUnidades c = 0
      \<or> (\<exists>p\<in>set (productos c). unidades_de_tipo (productos c) (tipo p) = 0))
   \<and> (0 < Catalogo_cantidadUnidades c
       \<and> (\<forall>p\<in>set (productos c). 0 < unidades_de_tipo (productos c) (tipo p)) \<longrightarrow>
         (\<exists>r. informe c = Inr r
            \<and> inf_precioPromedio r
                = py_quotient (Catalogo_valorTotal c) (PInt (Catalogo_cantidadUnidades c))
            \<and> distinct (map fst (inf_tipos r))
            \<and> set (inf_tipos r) =
                (\<lambda>t. (t, unidades_de_tipo (productos c) t,
                       py_quotient (valor_de_tipo (productos c) t)
                         (PInt (unidades_de_tipo (productos c) t)))) ` tipo ` set (productos c)))"
proof -
  let ?ps = "productos c"
  let ?d = "informe_tipos ?ps"
  let ?z = "\<exists>p\<in>set ?ps. unidades_de_tipo ?ps (tipo p) = 0"
  let ?f = "\<lambda>(t, u, v). (t, u, py_quotient v (PInt u))"
  let ?r = "\<lparr>inf_cantidadProductos = Catalogo_cantidadProductos c,
           inf_cantidadUnidades = Catalogo_cantidadUnidades c,
           inf_precioPromedio = py_quotient (Catalogo_valorTotal c) (PInt (Catalogo_cantidadUnidades c)),
           inf_valorTotal = Catalogo_valorTotal c,
           inf_tipos = map ?f ?d,
           inf_ofertas = map descripcion (ofertas c)\<rparr>"
  have z: "(\<exists>x\<in>set ?d. fst (snd x) = 0) = ?z"
    by (simp add: set_informe_tipos)
  have ln: "informe_lineas ?d = (if ?z then Inl ZeroDivisionError else Inr (map ?f ?d))"
    by (simp only: informe_lineas_eq z)
  have eq: "informe c =
      (if Catalogo_cantidadUnidades c = 0 then Inl ZeroDivisionError
       else if ?z then Inl ZeroDivisionError else Inr ?r)"
    by (simp add: informe_def Let_def py_truediv_def ln)
  have keys: "map fst (map ?f ?d) = map fst ?d"
    by (simp add: case_prod_beta comp_def)
  have setf: "set (map ?f ?d) =
      (\<lambda>t. (t, unidades_de_tipo ?ps t,
             py_quotient (valor_de_tipo ?ps t) (PInt (unidades_de_tipo ?ps t)))) ` tipo ` set ?ps"
    by (simp add: set_informe_tipos image_image)
  have iff: "(informe c = Inl ZeroDivisionError) = (Catalogo_cantidadUnidades c = 0 \<or> ?z)"
    by (simp add: eq)
  have pos: "\<exists>r. informe c = Inr r
            \<and> inf_precioPromedio r
                = py_quotient (Catalogo_valorTotal c) (PInt (Catalogo_cantidadUnidades c))
            \<and> distinct (map fst (inf_tipos r))
            \<and> set (inf_tipos r) =
                (\<lambda>t. (t, unidades_de_tipo ?ps t,
                       py_quotient (valor_de_tipo ?ps t) (PInt (unidades_de_tipo ?ps t)))) ` tipo ` set ?ps"
    if "0 < Catalogo_cantidadUnidades c" "\<forall>p\<in>set ?ps. 0 < unidades_de_tipo ?ps (tipo p)"
  proof -
    from that have nz: "Catalogo_cantidadUnidades c \<noteq> 0" and nq: "\<not> ?z" by auto
    have "informe c = Inr ?r"
      using nz nq by (simp only: eq if_False)
    moreover have "distinct (map fst (inf_tipos ?r))"
    proof -
      have "inf_tipos ?r = map ?f ?d" by simp
      then show ?thesis
        using distinct_informe_tipos [of ?ps] by (simp only: keys)
    qed
    moreover have "set (inf_tipos ?r) =
                (\<lambda>t. (t, unidades_de_tipo ?ps t,
                       py_quotient (valor_de_tipo ?ps t) (PInt (unidades_de_tipo ?ps t)))) ` tipo ` set ?ps"
    proof -
      have "inf_tipos ?r = map ?f ?d" by simp
      then show ?thesis by (simp only: setf)
    qed
    moreover have "inf_precioPromedio ?r
                = py_quotient (Catalogo_valorTotal c) (PInt (Catalogo_cantidadUnidades c))"
      by simp
    ultimately show ?thesis by blast
  qed
  show ?thesis using iff pos by blast
qed

text \<open>
  Witness for C9: the empty catalog (no units at all) and the example catalog with a
  product of quantity 0 alone in its category both fail; the example catalog, 100 sodas
  at 100 and 50 biscuits at 10, gives the averages 70.0, 100.0 and 10.0.
\<close>

lemma ex_quotients:
  "py_quotient (PInt 10500) (PInt 150) = PFloat 70"
  "py_quotient (PInt 10000) (PInt 100) = PFloat 100"
  "py_quotient (PInt 500) (PInt 50) = PFloat 10"
  by code_simp+

theorem informe_division_witness:
  "Catalogo_cantidadUnidades Catalogo_init = 0
   \<and> informe Catalogo_init = Inl ZeroDivisionError
   \<and> ex_sin_stock \<in> set (productos ex_catalogo_sin_stock)
   \<and> unidades_de_tipo (productos ex_catalogo_sin_stock) (tipo ex_sin_stock) = 0
   \<and> Catalogo_cantidadUnidades ex_catalogo_sin_stock = 150
   \<and> informe ex_catalogo_sin_stock = Inl ZeroDivisionError
   \<and> 0 < Catalogo_cantidadUnidades ex_catalogo
   \<and> productos ex_catalogo = [ex_gaseosa, ex_galleta]
   \<and> 0 < unidades_de_tipo (productos ex_catalogo) (tipo ex_gaseosa)
   \<and> 0 < unidades_de_tipo (productos ex_catalogo) (tipo ex_galleta)
   \<and> (\<exists>r. informe ex_catalogo = Inr r \<and> inf_precioPromedio r = PFloat 70
          \<and> set (inf_tipos r) = {(''gaseosa'', 100, PFloat 100), (''galleta'', 50, PFloat 10)})"
proof -
  have sel: "tipo ex_gaseosa = ''gaseosa''" "tipo ex_galleta = ''galleta''" "tipo ex_sin_stock = ''agua''"
    "cantidad ex_gaseosa = 100" "cantidad ex_galleta = 50" "cantidad ex_sin_stock = 0"
    "precio ex_gaseosa = PInt 100" "precio ex_galleta = PInt 10"
    by (simp_all add: ex_gaseosa_def ex_galleta_def ex_sin_stock_def)
  have ps0: "productos ex_catalogo_sin_stock = [ex_gaseosa, ex_galleta, ex_sin_stock]"
    by (simp add: ex_catalogo_sin_stock_def Catalogo_agregar_def ex_productos)
  have u0: "Catalogo_cantidadUnidades Catalogo_init = 0"
    by (simp add: Catalogo_cantidadUnidades_def Catalogo_init_def)
  have i0: "informe Catalogo_init = Inl ZeroDivisionError"
    using informe_division [of Catalogo_init] u0 by blast
  have m1: "ex_sin_stock \<in> set (productos ex_catalogo_sin_stock)"
    by (simp add: ps0)
  have z1: "unidades_de_tipo (productos ex_catalogo_sin_stock) (tipo ex_sin_stock) = 0"
    by (simp add: ps0 unidades_de_tipo_def sel)
  have u1: "Catalogo_cantidadUnidades ex_catalogo_sin_stock = 150"
    by (simp add: Catalogo_cantidadUnidades_def ps0 sel)
  have i1: "informe ex_catalogo_sin_stock = Inl ZeroDivisionError"
    using informe_division [of ex_catalogo_sin_stock] m1 z1 by blast
  have u2: "Catalogo_cantidadUnidades ex_catalogo = 150"
    by (simp add: Catalogo_cantidadUnidades_def ex_productos sel)
  have ut: "unidades_de_tipo (productos ex_catalogo) ''gaseosa'' = 100"
    "unidades_de_tipo (productos ex_catalogo) ''galleta'' = 50"
    by (simp_all add: unidades_de_tipo_def ex_productos sel)
  have vt: "valor_de_tipo (productos ex_catalogo) ''gaseosa'' = PInt 10000"
    "valor_de_tipo (productos ex_catalogo) ''galleta'' = PInt 500"
    by (simp_all add: valor_de_tipo_def ex_productos sel Producto_valorTotal_def)
  have v2: "Catalogo_valorTotal ex_catalogo = PInt 10500"
    by (simp add: Catalogo_valorTotal_def ex_productos sel Producto_valorTotal_def)
  have p2: "\<forall>p\<in>set (productos ex_catalogo). 0 < unidades_de_tipo (productos ex_catalogo) (tipo p)"
    by (simp add: ex_productos sel) (simp add: ut ex_productos [symmetric])
  from informe_division [of ex_catalogo] u2 p2
  obtain r where r: "informe ex_catalogo = Inr r"
    "inf_precioPromedio r
       = py_quotient (Catalogo_valorTotal ex_catalogo) (PInt (Catalogo_cantidadUnidades ex_catalogo))"
    "set (inf_tipos r) =
       (\<lambda>t. (t, unidades_de_tipo (productos ex_catalogo) t,
              py_quotient (valor_de_tipo (productos ex_catalogo) t)
                (PInt (unidades_de_tipo (productos ex_catalogo) t)))) ` tipo ` set (productos ex_catalogo)"
    by auto
  have a: "inf_precioPromedio r = PFloat 70"
    by (simp only: r(2) v2 u2 ex_quotients)
  have "tipo ` set (productos ex_catalogo) = {''gaseosa'', ''galleta''}"
    by (simp add: ex_productos sel)
  then have b: "set (inf_tipos r) = {(''gaseosa'', 100, PFloat 100), (''galleta'', 50, PFloat 10)}"
    by (simp only: r(3) image_insert image_empty ut vt ex_quotients)
  from r(1) a b have "\<exists>r. informe ex_catalogo = Inr r \<and> inf_precioPromedio r = PFloat 70
          \<and> set (inf_tipos r) = {(''gaseosa'', 100, PFloat 100), (''galleta'', 50, PFloat 10)}"
    by blast
  moreover have "0 < unidades_de_tipo (productos ex_catalogo) (tipo ex_gaseosa)"
    "0 < unidades_de_tipo (productos ex_catalogo) (tipo ex_galleta)"
    by (simp_all add: sel ut)
  ultimately show ?thesis
    using u0 i0 m1 z1 u1 i1 u2 ex_productos by simp
qed

section \<open>Saving and loading\<close>

lemma process_chars_linea1: "process_chars parse_reset linea1
   = Inr \<lparr>rd_state = EAT_CRNL, rd_fields = cabecera, rd_field = []\<rparr>"
  by (simp add: linea1_def cabecera_def parse_reset_def parse_process_char_def process_start_field_def
       end_of_line_def parse_add_char_def parse_save_field_def)

lemmas reader_defs = parse_process_char_def process_start_field_def
       end_of_line_def parse_add_char_def parse_save_field_def

lemma process_chars_linea2: "process_chars parse_reset linea2
   = Inr \<lparr>rd_state = IN_QUOTED_FIELD, rd_fields = [''0001''], rd_field = [CHR ''a'', LF]\<rparr>"
  by (simp add: linea2_def parse_reset_def reader_defs)

lemma process_chars_linea3: "process_chars \<lparr>rd_state = IN_QUOTED_FIELD, rd_fields = [''0001''], rd_field = [CHR ''a'', LF]\<rparr>
     linea3
   = Inr \<lparr>rd_state = EAT_CRNL, rd_fields = [''0001'', [CHR ''a'', LF, CHR ''b''], ''10'', ''x'', ''5''], rd_field = []\<rparr>"
  by (simp add: linea3_def reader_defs)

lemma process_end_of_line: "parse_process_char \<lparr>rd_state = EAT_CRNL, rd_fields = fs, rd_field = []\<rparr> None
   = Inr \<lparr>rd_state = START_RECORD, rd_fields = fs, rd_field = []\<rparr>"
  "parse_process_char \<lparr>rd_state = IN_QUOTED_FIELD, rd_fields = fs, rd_field = f\<rparr> None
   = Inr \<lparr>rd_state = IN_QUOTED_FIELD, rd_fields = fs, rd_field = f\<rparr>"
  by (simp_all add: reader_defs)

lemma parse_reset_sel: "rd_field parse_reset = []" "rd_state parse_reset = START_RECORD"
  by (simp_all add: parse_reset_def)

lemma reader_rows_lineas: "reader_rows parse_reset lineas
   = ([cabecera, [''0001'', [CHR ''a'', LF, CHR ''b''], ''10'', ''x'', ''5'']], None)"
  by (simp add: lineas_def process_chars_linea1 process_chars_linea2 process_chars_linea3
      process_end_of_line parse_reset_sel)

lemma file_lines_contenido: "file_lines [] (universal_newlines contenido) = lineas"
  by (simp add: contenido_def lineas_def linea1_def linea2_def linea3_def)

lemma py_float_10: "py_float ''10'' = Inr (PFloat 10)"
  by code_simp

lemma py_int_5: "py_int ''5'' = Inr 5"
  by code_simp

lemma str_int_5_10: "str_int 5 = ''5''" "str_int 10 = ''10''"
  by code_simp+

lemma guardar_contenido: "guardar float_repr fs cat_cr archivo archivo = Some contenido"
  by (simp add: contenido_def guardar_def cat_cr_def p_cr_def fila_def cabecera_def writerow_def
      csv_field_def csv_special_def str_num_def str_int_5_10)

lemma Producto_init_leido: "Producto_init ''0001'' [CHR ''a'', LF, CHR ''b''] (PFloat 10) ''x'' 5
    = Inr \<lparr>codigo = ''0001'', nombre = [CHR ''a'', LF, CHR ''b''], precio = PFloat 10, tipo = ''x'', cantidad = 5\<rparr>"
  by (simp add: Producto_init_def codigo_ok_def nombre_ok_def precio_ok_def tipo_ok_def
      cantidad_ok_def isdigit_def digit_char_def py_le_def)

lemma Producto_init_p_cr: "Producto_init ''0001'' [CHR ''a'', CR, CHR ''b''] (PInt 10) ''x'' 5 = Inr p_cr"
  by (simp add: Producto_init_def p_cr_def codigo_ok_def nombre_ok_def precio_ok_def tipo_ok_def
      cantidad_ok_def isdigit_def digit_char_def py_le_def)

text \<open>
  C8 does not hold of the code. \<^verbatim>\<open>guardar\<close> opens the file with \<^verbatim>\<open>newline=''\<close>
  and \<^verbatim>\<open>leer\<close> does not, so a carriage return inside a quoted field is read back as a
  line feed. The product with the three-character name a, CR, b passes the
  validation; saving the catalog that holds it and loading the file, whatever the path,
  the file system and the catalog loaded into, succeeds and gives a product whose name
  is a, LF, b.
\<close>

theorem guardar_leer_carriage_return:
  "Producto_init ''0001'' [CHR ''a'', CR, CHR ''b''] (PInt 10) ''x'' 5 = Inr p_cr
   \<and> productos cat_cr = [p_cr]
   \<and> leer (guardar float_repr fs cat_cr archivo) c archivo
       = (None, c\<lparr>productos := [\<lparr>codigo = ''0001'', nombre = [CHR ''a'', LF, CHR ''b''],
                                   precio = PFloat 10, tipo = ''x'', cantidad = 5\<rparr>]\<rparr>)
   \<and> map nombre (productos (snd (leer (guardar float_repr fs cat_cr archivo) c archivo)))
       \<noteq> map nombre (productos cat_cr)"
proof -
  have l: "leer (guardar float_repr fs cat_cr archivo) c archivo
       = (None, c\<lparr>productos := [\<lparr>codigo = ''0001'', nombre = [CHR ''a'', LF, CHR ''b''],
                                   precio = PFloat 10, tipo = ''x'', cantidad = 5\<rparr>]\<rparr>)"
    by (simp add: leer_def guardar_contenido file_lines_contenido reader_rows_lineas
        py_float_10 py_int_5 Producto_init_leido)
  show ?thesis
    by (simp add: l Producto_init_p_cr) (simp add: cat_cr_def p_cr_def)
qed

end
